theory Spec2Isabelle
  imports Complex_Main "HOL-Library.Log_Nat"
begin

section \<open>Python values\<close>

subsection \<open>Floats\<close>

text \<open>
  A Python \<^verbatim>\<open>float\<close> is an IEEE 754 binary64 number. The model keeps the finite ones, as
  the rational they denote, and rounds the exact result of every arithmetic operation to
  the nearest binary64 value, ties to the even significand (\<open>fl\<close>). Infinities and NaN
  are not modelled: a result beyond the binary64 range stays the rounded finite rational.
\<close>

type_synonym pyfloat = rat

definition round_half_even :: "rat \<Rightarrow> int" where
  "round_half_even y =
     (let n = \<lfloor>y\<rfloor>; r = y - of_int n
      in if r < 1 / 2 then n
         else if 1 / 2 < r then n + 1
         else if even n then n else n + 1)"

definition ilog2 :: "rat \<Rightarrow> int" where
  \<comment> \<open>the exponent \<open>e\<close> with \<open>2 ^ e \<le> x < 2 ^ (e + 1)\<close>, for \<open>0 < x\<close>\<close>
  "ilog2 x = (if 1 \<le> x then bitlen \<lfloor>x\<rfloor> - 1 else - bitlen (\<lceil>1 / x\<rceil> - 1))"

definition ulp_exp :: "rat \<Rightarrow> int" where
  \<comment> \<open>exponent of the unit in the last place: 53 significant bits, subnormals below \<open>2 ^ -1022\<close>\<close>
  "ulp_exp x = max (ilog2 \<bar>x\<bar>) (- 1022) - 52"

definition fl :: "rat \<Rightarrow> pyfloat" where
  "fl x = (if x = 0 then 0
           else of_int (round_half_even (x / 2 powi ulp_exp x)) * 2 powi ulp_exp x)"

definition fadd :: "pyfloat \<Rightarrow> pyfloat \<Rightarrow> pyfloat" where
  "fadd a b = fl (a + b)"

definition fsub :: "pyfloat \<Rightarrow> pyfloat \<Rightarrow> pyfloat" where
  "fsub a b = fl (a - b)"

definition fmul :: "pyfloat \<Rightarrow> pyfloat \<Rightarrow> pyfloat" where
  "fmul a b = fl (a * b)"

definition fdiv :: "pyfloat \<Rightarrow> pyfloat \<Rightarrow> pyfloat" where
  \<comment> \<open>every division of the program has a nonzero constant or a guarded divisor\<close>
  "fdiv a b = fl (a / b)"

definition py_int :: "pyfloat \<Rightarrow> int" where
  \<comment> \<open>\<^verbatim>\<open>int(x)\<close> truncates toward zero\<close>
  "py_int x = (if 0 \<le> x then \<lfloor>x\<rfloor> else \<lceil>x\<rceil>)"

definition py_round1 :: "pyfloat \<Rightarrow> pyfloat" where
  \<comment> \<open>\<^verbatim>\<open>round(x, 1)\<close>: the float nearest to \<open>x\<close> rounded half-even to one decimal\<close>
  "py_round1 x = fl (of_int (round_half_even (x * 10)) / 10)"

definition is_float :: "rat \<Rightarrow> bool" where
  \<comment> \<open>\<open>x\<close> is a binary64 value: rounding leaves it as it is\<close>
  "is_float x \<longleftrightarrow> fl x = x"

subsection \<open>JSON values, dictionaries and exceptions\<close>

text \<open>
  What \<^verbatim>\<open>response.json()\<close> returns. A dictionary is an association list read with
  \<open>map_of\<close>. Python's \<^verbatim>\<open>int\<close> is unbounded, so \<open>JInt\<close> carries an \<open>int\<close>.
\<close>

datatype json =
    JNull
  | JBool bool
  | JInt int
  | JNum pyfloat
  | JStr string
  | JArr "json list"
  | JObj "(string \<times> json) list"

text \<open>
  The exceptions the program can meet. Those of the \<^verbatim>\<open>requests\<close> library carry the
  text \<^verbatim>\<open>str(e)\<close>, which the library chooses.
\<close>

datatype exn =
    Request_Exception string
  | HTTP_Error string
  | JSON_Decode_Error string
  | Attribute_Error
  | Type_Error
  | Value_Error

definition py_get :: "json \<Rightarrow> string \<Rightarrow> json \<Rightarrow> exn + json" where
  \<comment> \<open>\<^verbatim>\<open>d.get(k, default)\<close>; only a dictionary has \<^verbatim>\<open>get\<close>\<close>
  "py_get d k dflt =
     (case d of
        JObj kvs \<Rightarrow> Inr (case map_of kvs k of None \<Rightarrow> dflt | Some v \<Rightarrow> v)
      | _ \<Rightarrow> Inl Attribute_Error)"

fun py_truthy :: "json \<Rightarrow> bool" where
  "py_truthy JNull = False"
| "py_truthy (JBool b) = b"
| "py_truthy (JInt n) = (n \<noteq> 0)"
| "py_truthy (JNum r) = (r \<noteq> 0)"
| "py_truthy (JStr s) = (s \<noteq> [])"
| "py_truthy (JArr xs) = (xs \<noteq> [])"
| "py_truthy (JObj kvs) = (kvs \<noteq> [])"

fun py_eq_int :: "json \<Rightarrow> int \<Rightarrow> bool" where
  \<comment> \<open>\<^verbatim>\<open>v == n\<close> for an integer literal: numbers compare by value, \<^verbatim>\<open>bool\<close> is an \<^verbatim>\<open>int\<close>\<close>
  "py_eq_int (JInt m) n = (m = n)"
| "py_eq_int (JNum r) n = (r = of_int n)"
| "py_eq_int (JBool b) n = ((if b then 1 else 0) = n)"
| "py_eq_int _ n = False"

text \<open>
  \<^verbatim>\<open>float(v)\<close>. Parsing a string is Python's own: \<open>str2f\<close> is that parser, \<open>None\<close>
  where it raises \<^verbatim>\<open>ValueError\<close>.
\<close>

type_synonym str_parser = "string \<Rightarrow> pyfloat option"

fun py_float :: "str_parser \<Rightarrow> json \<Rightarrow> exn + pyfloat" where
  "py_float str2f (JNum r) = Inr r"
| "py_float str2f (JInt n) = Inr (fl (of_int n))"
| "py_float str2f (JBool b) = Inr (if b then 1 else 0)"
| "py_float str2f (JStr s) = (case str2f s of None \<Rightarrow> Inl Value_Error | Some r \<Rightarrow> Inr r)"
| "py_float str2f _ = Inl Type_Error"

definition get_float :: "str_parser \<Rightarrow> json \<Rightarrow> string \<Rightarrow> json \<Rightarrow> exn + pyfloat" where
  \<comment> \<open>\<^verbatim>\<open>float(d.get(k, default))\<close>\<close>
  "get_float str2f d k dflt =
     (case py_get d k dflt of Inl e \<Rightarrow> Inl e | Inr v \<Rightarrow> py_float str2f v)"

section \<open>PortfolioCalculator\<close>

record position_detail =
  pd_symbol :: json
  pd_qty :: pyfloat
  pd_usd_value :: pyfloat
  pd_mark_price :: pyfloat
  pd_avg_entry_price :: pyfloat
  pd_unrealised_pnl :: pyfloat

record metrics =
  cold_storage_btc :: pyfloat
  cold_storage_usd :: pyfloat
  futures_btc :: pyfloat
  futures_btc_usd :: pyfloat
  total_btc :: pyfloat
  total_portfolio_usd :: pyfloat
  btc_price :: pyfloat
  gross_btc_exposure_usd :: pyfloat
  net_btc_exposure_usd :: pyfloat
  usd_exposure :: pyfloat
  current_short_usd :: pyfloat
  current_btc_allocation :: pyfloat
  current_usd_allocation :: pyfloat
  target_btc_allocation :: pyfloat
  target_usd_allocation :: pyfloat
  allocation_deviation :: pyfloat
  target_btc_usd :: pyfloat
  target_usd_exposure :: pyfloat
  required_usd_adjustment :: pyfloat
  short_position_adjustment :: pyfloat
  contracts_to_adjust :: int
  needs_rebalancing :: bool
  rebalance_threshold :: pyfloat
  positions :: "position_detail list"
  position_count :: nat

text \<open>
  The loop over \<^verbatim>\<open>positions\<close> of \<^verbatim>\<open>calculate_metrics\<close>: the accumulator is
  \<^verbatim>\<open>(total_short_usd, position_details)\<close>. A position that is not a dictionary, or a
  field \<^verbatim>\<open>float\<close> refuses, raises.
\<close>

fun short_positions ::
  "str_parser \<Rightarrow> pyfloat \<Rightarrow> json list \<Rightarrow> pyfloat \<times> position_detail list
     \<Rightarrow> exn + pyfloat \<times> position_detail list" where
  "short_positions str2f price [] acc = Inr acc"
| "short_positions str2f price (pos # rest) (total_short_usd, position_details) =
     (case py_get pos ''symbol'' (JStr []) of Inl e \<Rightarrow> Inl e | Inr symbol \<Rightarrow>
      case get_float str2f pos ''currentQty'' (JInt 0) of Inl e \<Rightarrow> Inl e | Inr current_qty \<Rightarrow>
      case py_get pos ''isInverse'' (JBool False) of Inl e \<Rightarrow> Inl e | Inr is_inverse \<Rightarrow>
      case get_float str2f pos ''markPrice'' (JNum price) of Inl e \<Rightarrow> Inl e | Inr mark_price \<Rightarrow>
      if py_truthy is_inverse \<and> current_qty < 0 then
        (let short_usd_value = \<bar>current_qty\<bar> in
         case get_float str2f pos ''avgEntryPrice'' (JInt 0) of Inl e \<Rightarrow> Inl e | Inr avg \<Rightarrow>
         case get_float str2f pos ''unrealisedPnl'' (JInt 0) of Inl e \<Rightarrow> Inl e | Inr pnl \<Rightarrow>
         short_positions str2f price rest
           (fadd total_short_usd short_usd_value,
            position_details @
              [\<lparr>pd_symbol = symbol, pd_qty = current_qty, pd_usd_value = short_usd_value,
                pd_mark_price = mark_price, pd_avg_entry_price = avg,
                pd_unrealised_pnl = pnl\<rparr>]))
      else short_positions str2f price rest (total_short_usd, position_details))"

definition calculate_metrics ::
  "str_parser \<Rightarrow> pyfloat \<Rightarrow> json \<Rightarrow> json list \<Rightarrow> pyfloat \<Rightarrow> pyfloat \<Rightarrow> pyfloat
     \<Rightarrow> exn + metrics" where
  "calculate_metrics str2f cold futures_account poss price target_allocation threshold =
     (case get_float str2f futures_account ''accountEquity'' (JInt 0) of Inl e \<Rightarrow> Inl e
      | Inr fut \<Rightarrow>
      case short_positions str2f price poss (0, []) of Inl e \<Rightarrow> Inl e
      | Inr (total_short_usd, position_details) \<Rightarrow>
        (let tot_btc = fadd cold fut;
             cold_usd = fmul cold price;
             fut_usd = fmul fut price;
             total_usd = fmul tot_btc price;
             gross = fadd cold_usd fut_usd;
             net = fsub gross total_short_usd;
             usd_exp = total_short_usd;
             btc_alloc = (if 0 < total_usd then fmul (fdiv net total_usd) 100 else 0);
             usd_alloc = (if 0 < total_usd then fmul (fdiv usd_exp total_usd) 100 else 0);
             tgt_btc_usd = fmul total_usd (fdiv target_allocation 100);
             tgt_usd_exposure = fmul total_usd (fdiv (fsub 100 target_allocation) 100);
             deviation = fsub btc_alloc target_allocation;
             required = fmul (fdiv deviation 100) total_usd;
             adjustment = fsub tgt_usd_exposure total_short_usd
         in Inr \<lparr>cold_storage_btc = cold,
                 cold_storage_usd = cold_usd,
                 futures_btc = fut,
                 futures_btc_usd = fut_usd,
                 total_btc = tot_btc,
                 total_portfolio_usd = total_usd,
                 btc_price = price,
                 gross_btc_exposure_usd = gross,
                 net_btc_exposure_usd = net,
                 usd_exposure = usd_exp,
                 current_short_usd = total_short_usd,
                 current_btc_allocation = btc_alloc,
                 current_usd_allocation = usd_alloc,
                 target_btc_allocation = target_allocation,
                 target_usd_allocation = fsub 100 target_allocation,
                 allocation_deviation = deviation,
                 target_btc_usd = tgt_btc_usd,
                 target_usd_exposure = tgt_usd_exposure,
                 required_usd_adjustment = required,
                 short_position_adjustment = adjustment,
                 contracts_to_adjust = py_int \<bar>adjustment\<bar>,
                 needs_rebalancing = (threshold < \<bar>deviation\<bar>),
                 rebalance_threshold = threshold,
                 positions = position_details,
                 position_count = length position_details\<rparr>))"

section \<open>The exchange and the process state\<close>

text \<open>
  A request is its HTTP method, the endpoint (the URL template of the source with the
  values formatted into it) and the body. The authentication headers are left out.
\<close>

datatype http_method = GET | POST | DELETE

datatype endpoint =
    Ticker string                     \<comment> \<open>\<^verbatim>\<open>/api/v1/ticker?symbol={symbol}\<close>\<close>
  | Account_Overview "string option"  \<comment> \<open>\<^verbatim>\<open>/api/v1/account-overview[?currency={currency}]\<close>\<close>
  | Positions "string option"         \<comment> \<open>\<^verbatim>\<open>/api/v1/positions[?currency={currency}]\<close>\<close>
  | Get_Position_Mode string          \<comment> \<open>\<^verbatim>\<open>/api/v2/position/getPositionMode?symbol={symbol}\<close>\<close>
  | Change_Position_Mode              \<comment> \<open>\<^verbatim>\<open>/api/v2/position/changePositionMode\<close>\<close>
  | Orders                            \<comment> \<open>\<^verbatim>\<open>/api/v1/orders\<close>\<close>
  | Order json                        \<comment> \<open>\<^verbatim>\<open>/api/v1/orders/{order_id}\<close>\<close>

record order_data =
  od_clientOid :: string
  od_side :: string
  od_symbol :: string
  od_type :: string
  od_leverage :: int            \<comment> \<open>sent as \<^verbatim>\<open>str(leverage)\<close>\<close>
  od_size :: int
  od_reduceOnly :: bool
  od_marginMode :: string
  od_price :: "pyfloat option"  \<comment> \<open>\<^verbatim>\<open>round(limit_price, 1)\<close>, sent as its \<^verbatim>\<open>str\<close>\<close>
  od_timeInForce :: "string option"

datatype body =
    No_Body
  | Mode_Body string int   \<comment> \<open>\<^verbatim>\<open>{'symbol': symbol, 'positionMode': position_mode_int}\<close>\<close>
  | Order_Body order_data

record request =
  rq_method :: http_method
  rq_endpoint :: endpoint
  rq_body :: body

text \<open>
  What one call of \<^verbatim>\<open>session.get\<close>, \<^verbatim>\<open>post\<close> or \<^verbatim>\<open>delete\<close> does: it raises, or it
  returns a response with a status code, the text of the \<^verbatim>\<open>HTTPError\<close> that
  \<^verbatim>\<open>raise_for_status\<close> would raise, and what \<^verbatim>\<open>response.json()\<close> gives.
\<close>

datatype payload = Not_JSON string | JSON json

datatype reply = Raises exn | Response nat string payload

datatype last_error =
    Err_Text string   \<comment> \<open>a text the program builds\<close>
  | Err_Api json      \<comment> \<open>the exchange's \<^verbatim>\<open>msg\<close>, as received\<close>
  | Err_Raised exn    \<comment> \<open>\<^verbatim>\<open>str(e)\<close> of a caught exception\<close>

datatype log_line =
    Fetch_Failed string "last_error option"
      \<comment> \<open>\<^verbatim>\<open>FAILED TO FETCH ... - ALL METHODS TRIED\<close> and \<^verbatim>\<open>Last error: {last_error}\<close>\<close>
  | Gtc_Cancelled json
      \<comment> \<open>\<^verbatim>\<open>[GTC] Cancelled order {order_id}\<close>\<close>

datatype row_error =
    Row_Text string
  | Filled_Of pyfloat pyfloat   \<comment> \<open>\<^verbatim>\<open>f'Filled {filled_size}/{total_size}'\<close>\<close>

text \<open>One row of the CSV ledger, as the arguments of \<^verbatim>\<open>TradeLogger.log_trade\<close>.\<close>

record trade =
  tr_action :: string
  tr_symbol :: string
  tr_contracts :: int
  tr_limit_price :: "pyfloat option"
  tr_order_id :: json
  tr_slippage :: "pyfloat option"
  tr_status :: string
  tr_error :: "row_error option"

text \<open>
  The state of a run. The exchange is a script: the replies it will give, in the order
  of the calls; once the script is used up every call fails at the transport level. The
  clock counts seconds and only \<^verbatim>\<open>time.sleep\<close> advances it. Of the logger, only the two
  lines of \<open>log_line\<close> are kept.
\<close>

record world =
  replies :: "reply list"
  sent :: "request list"
  clock :: nat
  ledger :: "trade list"
  logged :: "log_line list"
  uuids_drawn :: nat

definition http :: "world \<Rightarrow> http_method \<Rightarrow> endpoint \<Rightarrow> body \<Rightarrow> reply \<times> world" where
  "http w m ep b =
     (let rq = \<lparr>rq_method = m, rq_endpoint = ep, rq_body = b\<rparr>
      in case replies w of
           [] \<Rightarrow> (Raises (Request_Exception ''no reply''), w\<lparr>sent := sent w @ [rq]\<rparr>)
         | r # rs \<Rightarrow> (r, w\<lparr>replies := rs, sent := sent w @ [rq]\<rparr>))"

definition checked_json :: "reply \<Rightarrow> exn + json" where
  \<comment> \<open>\<^verbatim>\<open>response.raise_for_status(); data = response.json()\<close>\<close>
  "checked_json r =
     (case r of
        Raises e \<Rightarrow> Inl e
      | Response status txt pl \<Rightarrow>
          if 400 \<le> status \<and> status < 600 then Inl (HTTP_Error txt)
          else (case pl of Not_JSON t \<Rightarrow> Inl (JSON_Decode_Error t) | JSON data \<Rightarrow> Inr data))"

definition api_data :: "json \<Rightarrow> json \<Rightarrow> exn + json option" where
  \<comment> \<open>\<^verbatim>\<open>data.get('data', default)\<close> if \<^verbatim>\<open>data.get('code') == '200000'\<close>, else \<open>None\<close>\<close>
  "api_data data dflt =
     (case py_get data ''code'' JNull of Inl e \<Rightarrow> Inl e
      | Inr code \<Rightarrow>
          if code = JStr ''200000''
          then (case py_get data ''data'' dflt of Inl e \<Rightarrow> Inl e | Inr d \<Rightarrow> Inr (Some d))
          else Inr None)"

section \<open>KuCoinFuturesClient\<close>

record quote =
  best_bid :: pyfloat
  best_ask :: pyfloat
  last_price :: pyfloat
  timestamp :: json

definition ticker_quote :: "str_parser \<Rightarrow> json \<Rightarrow> exn + quote" where
  \<comment> \<open>the part of \<^verbatim>\<open>get_best_bid_ask\<close> that reads \<^verbatim>\<open>ticker_data\<close>\<close>
  "ticker_quote str2f ticker_data =
     (case get_float str2f ticker_data ''bestBidPrice'' (JInt 0) of Inl e \<Rightarrow> Inl e | Inr bid \<Rightarrow>
      case get_float str2f ticker_data ''bestAskPrice'' (JInt 0) of Inl e \<Rightarrow> Inl e | Inr ask \<Rightarrow>
      case (if bid = 0 \<or> ask = 0
            then (case get_float str2f ticker_data ''price'' (JInt 0) of Inl e \<Rightarrow> Inl e
                  | Inr last_px \<Rightarrow>
                      if 0 < last_px
                      then Inr (if 0 < bid then bid else last_px, if 0 < ask then ask else last_px)
                      else Inr (bid, ask))
            else Inr (bid, ask)) of Inl e \<Rightarrow> Inl e | Inr (bid', ask') \<Rightarrow>
      case get_float str2f ticker_data ''price'' (JInt 0) of Inl e \<Rightarrow> Inl e | Inr last_px \<Rightarrow>
      case py_get ticker_data ''ts'' (JInt 0) of Inl e \<Rightarrow> Inl e | Inr ts \<Rightarrow>
      Inr \<lparr>best_bid = bid', best_ask = ask', last_price = last_px, timestamp = ts\<rparr>)"

definition get_best_bid_ask :: "str_parser \<Rightarrow> world \<Rightarrow> string \<Rightarrow> quote option \<times> world" where
  \<comment> \<open>\<open>None\<close> is the empty dictionary the source returns on every failure\<close>
  "get_best_bid_ask str2f w symbol =
     (let (r, w') = http w GET (Ticker symbol) No_Body
      in (case checked_json r of Inl e \<Rightarrow> None
          | Inr data \<Rightarrow>
              (case api_data data (JObj []) of Inl e \<Rightarrow> None
               | Inr None \<Rightarrow> None
               | Inr (Some ticker_data) \<Rightarrow>
                   (case ticker_quote str2f ticker_data of Inl e \<Rightarrow> None | Inr q \<Rightarrow> Some q)),
          w'))"

text \<open>
  One pass of the loop over \<^verbatim>\<open>attempts\<close> in \<^verbatim>\<open>get_futures_account\<close> and
  \<^verbatim>\<open>get_positions\<close>: \<open>Inl\<close> is the new \<^verbatim>\<open>last_error\<close> before \<^verbatim>\<open>continue\<close>, \<open>Inr\<close>
  the value of \<^verbatim>\<open>data.get('data', default)\<close> of a successful reply.
\<close>

definition attempt_reply :: "string \<Rightarrow> json \<Rightarrow> reply \<Rightarrow> last_error + json" where
  "attempt_reply attempt_name dflt r =
     (case r of
        Raises e \<Rightarrow> Inl (Err_Raised e)
      | Response status txt pl \<Rightarrow>
          if status = 400 then Inl (Err_Text (''400 Bad Request with '' @ attempt_name))
          else (case checked_json r of Inl e \<Rightarrow> Inl (Err_Raised e)
                | Inr data \<Rightarrow>
                    (case api_data data dflt of Inl e \<Rightarrow> Inl (Err_Raised e)
                     | Inr (Some d) \<Rightarrow> Inr d
                     | Inr None \<Rightarrow>
                         (case py_get data ''msg'' (JStr ''Unknown error'') of
                            Inl e \<Rightarrow> Inl (Err_Raised e)
                          | Inr error_msg \<Rightarrow> Inl (Err_Api error_msg)))))"

fun account_attempts ::
  "world \<Rightarrow> (string \<times> endpoint) list \<Rightarrow> last_error option \<Rightarrow> json \<times> world" where
  "account_attempts w [] last_err =
     (JObj [], w\<lparr>logged := logged w @ [Fetch_Failed ''ACCOUNT'' last_err]\<rparr>)"
| "account_attempts w ((attempt_name, ep) # rest) last_err =
     (let (r, w') = http w GET ep No_Body
      in case attempt_reply attempt_name (JObj []) r of
           Inl err \<Rightarrow> account_attempts w' rest (Some err)
         | Inr d \<Rightarrow> (d, w'))"

definition get_futures_account :: "world \<Rightarrow> string \<Rightarrow> json \<times> world" where
  "get_futures_account w currency =
     account_attempts w
       [(''without parameters'', Account_Overview None),
        (''with currency='' @ currency, Account_Overview (Some currency))]
       None"

fun open_positions :: "json list \<Rightarrow> exn + json list" where
  \<comment> \<open>\<^verbatim>\<open>[pos for pos in positions if pos.get('isOpen', False)]\<close> over a list\<close>
  "open_positions [] = Inr []"
| "open_positions (pos # rest) =
     (case py_get pos ''isOpen'' (JBool False) of Inl e \<Rightarrow> Inl e
      | Inr is_open \<Rightarrow>
          (case open_positions rest of Inl e \<Rightarrow> Inl e
           | Inr ps \<Rightarrow> Inr (if py_truthy is_open then pos # ps else ps)))"

fun filter_open :: "json \<Rightarrow> exn + json list" where
  \<comment> \<open>the same comprehension over any JSON value: a dictionary or a string iterates
      over strings, which have no \<^verbatim>\<open>get\<close>; the other values are not iterable\<close>
  "filter_open (JArr xs) = open_positions xs"
| "filter_open (JObj kvs) = (if kvs = [] then Inr [] else Inl Attribute_Error)"
| "filter_open (JStr s) = (if s = [] then Inr [] else Inl Attribute_Error)"
| "filter_open _ = Inl Type_Error"

fun positions_attempts ::
  "world \<Rightarrow> (string \<times> endpoint) list \<Rightarrow> last_error option \<Rightarrow> json list \<times> world" where
  "positions_attempts w [] last_err =
     ([], w\<lparr>logged := logged w @ [Fetch_Failed ''POSITIONS'' last_err]\<rparr>)"
| "positions_attempts w ((attempt_name, ep) # rest) last_err =
     (let (r, w') = http w GET ep No_Body
      in case attempt_reply attempt_name (JArr []) r of
           Inl err \<Rightarrow> positions_attempts w' rest (Some err)
         | Inr d \<Rightarrow>
             (case filter_open d of
                Inl e \<Rightarrow> positions_attempts w' rest (Some (Err_Raised e))
              | Inr ps \<Rightarrow> (ps, w')))"

definition get_positions :: "world \<Rightarrow> string \<Rightarrow> json list \<times> world" where
  "get_positions w currency =
     positions_attempts w
       [(''without parameters'', Positions None),
        (''with currency='' @ currency, Positions (Some currency))]
       None"

definition get_position_mode :: "world \<Rightarrow> string \<Rightarrow> string \<times> world" where
  \<comment> \<open>the empty string on every failure\<close>
  "get_position_mode w symbol =
     (let (r, w') = http w GET (Get_Position_Mode symbol) No_Body
      in (case checked_json r of Inl e \<Rightarrow> []
          | Inr data \<Rightarrow>
              (case api_data data (JObj []) of Inl e \<Rightarrow> []
               | Inr None \<Rightarrow> []
               | Inr (Some d) \<Rightarrow>
                   (case py_get d ''positionMode'' (JInt (- 1)) of Inl e \<Rightarrow> []
                    | Inr position_mode_int \<Rightarrow>
                        if py_eq_int position_mode_int 0 then ''ONE_WAY''
                        else if py_eq_int position_mode_int 1 then ''HEDGE_MODE''
                        else [])),
          w'))"

definition api_success :: "reply \<Rightarrow> bool" where
  \<comment> \<open>the reply passes \<^verbatim>\<open>raise_for_status\<close>, decodes, and has \<^verbatim>\<open>code == '200000'\<close>\<close>
  "api_success r =
     (case checked_json r of Inl e \<Rightarrow> False
      | Inr data \<Rightarrow>
          (case py_get data ''code'' JNull of Inl e \<Rightarrow> False
           | Inr code \<Rightarrow> code = JStr ''200000''))"

definition set_position_mode :: "world \<Rightarrow> string \<Rightarrow> string \<Rightarrow> bool \<times> world" where
  "set_position_mode w symbol position_mode =
     (if position_mode = ''ONE_WAY'' \<or> position_mode = ''HEDGE_MODE'' then
        (let position_mode_int = (if position_mode = ''ONE_WAY'' then 0 else 1);
             (r, w') = http w POST Change_Position_Mode (Mode_Body symbol position_mode_int)
         in (api_success r, w'))
      else (False, w))"

definition get_order_details :: "world \<Rightarrow> json \<Rightarrow> json \<times> world" where
  \<comment> \<open>the empty dictionary on every failure\<close>
  "get_order_details w order_id =
     (let (r, w') = http w GET (Order order_id) No_Body
      in (case checked_json r of Inl e \<Rightarrow> JObj []
          | Inr data \<Rightarrow>
              (case api_data data (JObj []) of Inl e \<Rightarrow> JObj []
               | Inr None \<Rightarrow> JObj []
               | Inr (Some d) \<Rightarrow> d),
          w'))"

definition cancel_order :: "world \<Rightarrow> json \<Rightarrow> bool \<times> world" where
  "cancel_order w order_id =
     (let (r, w') = http w DELETE (Order order_id) No_Body in (api_success r, w'))"

section \<open>OrderExecutor\<close>

record executor =
  dry_run :: bool
  max_order_usd :: pyfloat
  min_order_usd :: pyfloat
  margin_mode :: string
  position_mode :: string
  auto_set_position_mode :: bool
  order_type :: string
  time_in_force :: string
  slippage_pct :: pyfloat
  gtc_timeout_seconds :: int
  trade_logging_enabled :: bool

text \<open>
  What the Python runtime supplies: the parser behind \<^verbatim>\<open>float(str)\<close> and the stream of
  \<^verbatim>\<open>uuid.uuid4()\<close> draws, rendered by \<^verbatim>\<open>str\<close>.
\<close>

record runtime =
  rt_float :: str_parser
  rt_uuid4 :: "nat \<Rightarrow> string"

datatype order_result =
    Failure last_error
      \<comment> \<open>\<^verbatim>\<open>{'success': False, 'error': ...}\<close>\<close>
  | Dry_Run_Ok string string string
      \<comment> \<open>\<^verbatim>\<open>{'success': True, 'dry_run': True, 'order_id', 'client_oid', 'order_type'}\<close>\<close>
  | Placed json string string "string option"
      \<comment> \<open>\<^verbatim>\<open>{'success': True, 'order_id', 'client_oid', 'order_type', 'time_in_force'}\<close>\<close>
  | Gtc_Filled json pyfloat
      \<comment> \<open>\<^verbatim>\<open>{'success': True, 'order_id', 'filled_size'}\<close>\<close>
  | Gtc_Partial json pyfloat
      \<comment> \<open>\<^verbatim>\<open>{'success': True, 'order_id', 'partially_filled': True, 'filled_size'}\<close>\<close>


definition py_lower :: "string \<Rightarrow> string" where
  \<comment> \<open>\<^verbatim>\<open>str.lower\<close> on ASCII text\<close>
  "py_lower s =
     map (\<lambda>c. if 65 \<le> (of_char c :: nat) \<and> (of_char c :: nat) \<le> 90
              then char_of (of_char c + 32 :: nat) else c) s"

definition underscored :: "string \<Rightarrow> string" where
  \<comment> \<open>\<^verbatim>\<open>action.replace(" ", "_")\<close>\<close>
  "underscored s = map (\<lambda>c. if c = CHR '' '' then CHR ''_'' else c) s"

definition log_trade :: "executor \<Rightarrow> world \<Rightarrow> trade \<Rightarrow> world" where
  \<comment> \<open>\<^verbatim>\<open>TradeLogger.log_trade\<close>: one row of the CSV ledger, unless logging is disabled\<close>
  "log_trade cfg w row =
     (if trade_logging_enabled cfg then w\<lparr>ledger := ledger w @ [row]\<rparr> else w)"

definition verify_position_mode :: "executor \<Rightarrow> world \<Rightarrow> string \<Rightarrow> bool \<times> world" where
  "verify_position_mode cfg w symbol =
     (let (current_mode, w1) = get_position_mode w symbol
      in if current_mode = [] then (False, w1)
         else if current_mode = position_mode cfg then (True, w1)
         else if auto_set_position_mode cfg
              then set_position_mode w1 symbol (position_mode cfg)
              else (False, w1))"

definition calculate_limit_price ::
  "runtime \<Rightarrow> executor \<Rightarrow> world \<Rightarrow> string \<Rightarrow> string \<Rightarrow> pyfloat \<times> world" where
  "calculate_limit_price rt cfg w symbol side =
     (let (ticker_data, w1) = get_best_bid_ask (rt_float rt) w symbol
      in (case ticker_data of
            None \<Rightarrow> 0
          | Some q \<Rightarrow>
              if best_bid q = 0 \<or> best_ask q = 0 then 0
              else if py_lower side = ''buy''
                   then fmul (best_ask q) (fadd 1 (fdiv (slippage_pct cfg) 100))
                   else fmul (best_bid q) (fsub 1 (fdiv (slippage_pct cfg) 100)),
          w1))"

definition truthy_price :: "pyfloat option \<Rightarrow> bool" where
  \<comment> \<open>the truth value of \<^verbatim>\<open>limit_price\<close>: neither \<^verbatim>\<open>None\<close> nor zero\<close>
  "truthy_price p = (case p of None \<Rightarrow> False | Some x \<Rightarrow> x \<noteq> 0)"

definition trade_action :: "string \<Rightarrow> bool \<Rightarrow> string" where
  "trade_action side reduce_only =
     (if py_lower side = ''sell'' \<and> \<not> reduce_only then ''OPEN SHORT'' else ''CLOSE SHORT'')"

text \<open>
  \<^verbatim>\<open>place_order\<close> and \<^verbatim>\<open>monitor_gtc_order\<close> call each other. The \<^verbatim>\<open>while True\<close> loop of
  \<^verbatim>\<open>monitor_gtc_order\<close> is the recursion of the model's function on itself, which carries
  the local \<^verbatim>\<open>start_time\<close> as an argument: \<^verbatim>\<open>place_order\<close> enters it with the clock's
  reading. An exception inside \<^verbatim>\<open>monitor_gtc_order\<close> is its \<open>Inl\<close> result;
  \<^verbatim>\<open>place_order\<close>, which calls it inside its \<^verbatim>\<open>try\<close>, turns it into a failure value.
\<close>

function
  place_order ::
    "runtime \<Rightarrow> executor \<Rightarrow> world \<Rightarrow> string \<Rightarrow> string \<Rightarrow> int \<Rightarrow> int \<Rightarrow> bool
       \<Rightarrow> order_result \<times> world"
and
  monitor_gtc_order ::
    "runtime \<Rightarrow> executor \<Rightarrow> world \<Rightarrow> nat \<Rightarrow> json \<Rightarrow> string \<Rightarrow> string \<Rightarrow> int \<Rightarrow> int \<Rightarrow> bool
       \<Rightarrow> string \<Rightarrow> pyfloat option \<Rightarrow> (exn + order_result) \<times> world"
where
  "place_order rt cfg w symbol side contracts leverage reduce_only =
     (let order_usd = \<bar>contracts\<bar> in
      if max_order_usd cfg < of_int order_usd
      then (Failure (Err_Text ''Order size exceeds maximum''), w)
      else if of_int order_usd < min_order_usd cfg
      then (Failure (Err_Text ''Order size below minimum''), w)
      else
        let (verified, w1) =
              (if \<not> dry_run cfg then verify_position_mode cfg w symbol else (True, w))
        in if \<not> verified then (Failure (Err_Text ''Position mode mismatch''), w1)
        else
          let client_oid = rt_uuid4 rt (uuids_drawn w1);
              w2 = w1\<lparr>uuids_drawn := Suc (uuids_drawn w1)\<rparr>;
              tif = (if order_type cfg = ''limit'' \<and> slippage_pct cfg < 0
                     then ''GTC'' else time_in_force cfg);
              (limit_price, w3) =
                (if order_type cfg = ''limit''
                 then (let (p, w') = calculate_limit_price rt cfg w2 symbol side
                       in (Some p, w'))
                 else (None, w2));
              otype = (if order_type cfg = ''limit'' \<and> limit_price = Some 0
                       then ''market'' else order_type cfg);
              priced = (otype = ''limit'' \<and> truthy_price limit_price);
              order = \<lparr>od_clientOid = client_oid,
                       od_side = py_lower side,
                       od_symbol = symbol,
                       od_type = otype,
                       od_leverage = leverage,
                       od_size = \<bar>contracts\<bar>,
                       od_reduceOnly = reduce_only,
                       od_marginMode = margin_mode cfg,
                       od_price = (if priced then map_option py_round1 limit_price else None),
                       od_timeInForce = (if priced then Some tif else None)\<rparr>
          in if dry_run cfg
             then (Dry_Run_Ok (''DRY_RUN_'' @ take 8 client_oid) client_oid otype, w3)
             else
               let (r, w4) = http w3 POST Orders (Order_Body order)
               in case checked_json r of
                    Inl e \<Rightarrow> (Failure (Err_Raised e), w4)
                  | Inr data \<Rightarrow>
                     (case api_data data (JObj []) of
                        Inl e \<Rightarrow> (Failure (Err_Raised e), w4)
                      | Inr None \<Rightarrow>
                          (case py_get data ''msg'' (JStr ''Unknown error'') of
                             Inl e \<Rightarrow> (Failure (Err_Raised e), w4)
                           | Inr error_msg \<Rightarrow> (Failure (Err_Api error_msg), w4))
                      | Inr (Some d) \<Rightarrow>
                          (case py_get d ''orderId'' (JStr []) of
                             Inl e \<Rightarrow> (Failure (Err_Raised e), w4)
                           | Inr order_id \<Rightarrow>
                               let action = trade_action side reduce_only
                               in if otype = ''limit'' \<and> tif = ''GTC''
                                  then
                                    (case monitor_gtc_order rt cfg w4 (clock w4) order_id symbol
                                            side contracts leverage reduce_only action limit_price of
                                       (Inl e, w5) \<Rightarrow> (Failure (Err_Raised e), w5)
                                     | (Inr res, w5) \<Rightarrow> (res, w5))
                                  else
                                    (Placed order_id client_oid otype
                                       (if otype = ''limit'' then Some tif else None),
                                     log_trade cfg w4
                                       \<lparr>tr_action = underscored action,
                                        tr_symbol = symbol,
                                        tr_contracts = \<bar>contracts\<bar>,
                                        tr_limit_price =
                                          (if otype = ''limit'' then limit_price else None),
                                        tr_order_id = order_id,
                                        tr_slippage =
                                          (if otype = ''limit'' then Some (slippage_pct cfg)
                                           else None),
                                        tr_status = ''FILLED'',
                                        tr_error = None\<rparr>))))"
| "monitor_gtc_order rt cfg w start_time order_id symbol side contracts leverage reduce_only
     action limit_price =
     (let elapsed = int (clock w) - int start_time;
          loggable = (action \<noteq> [] \<and> truthy_price limit_price);
          row = (\<lambda>n status err.
                   \<lparr>tr_action = underscored action, tr_symbol = symbol, tr_contracts = n,
                    tr_limit_price = limit_price, tr_order_id = order_id,
                    tr_slippage = Some (slippage_pct cfg), tr_status = status,
                    tr_error = err\<rparr>)
      in if gtc_timeout_seconds cfg \<le> elapsed then
           let (order_details, w1) = get_order_details w order_id;
               timed_out =
                 (Inr (Failure (Err_Text ''GTC order timeout'')),
                  if loggable
                  then log_trade cfg w1
                         (row \<bar>contracts\<bar> ''TIMEOUT''
                            (Some (Row_Text ''GTC timeout - could not get order status'')))
                  else w1)
           in if py_truthy order_details then
                (case get_float (rt_float rt) order_details ''dealSize'' (JInt 0) of
                   Inl e \<Rightarrow> (Inl e, w1)
                 | Inr filled_size \<Rightarrow>
                 case get_float (rt_float rt) order_details ''size'' (JInt contracts) of
                   Inl e \<Rightarrow> (Inl e, w1)
                 | Inr total_size \<Rightarrow>
                   if filled_size < total_size then
                     let (cancel_success, w2) = cancel_order w1 order_id;
                         w3 = (if cancel_success
                               then w2\<lparr>logged := logged w2 @ [Gtc_Cancelled order_id]\<rparr>
                               else w2);
                         unfilled = py_int (fsub total_size filled_size);
                         w4 = (if filled_size = 0 \<and> loggable
                               then log_trade cfg w3
                                      (row \<bar>contracts\<bar> ''CANCELLED''
                                         (Some (Row_Text ''GTC timeout - no fill'')))
                               else w3)
                     in if 0 < unfilled then
                          (let (res, w5) =
                                 place_order rt cfg w4 symbol side unfilled leverage reduce_only
                           in (Inr res, w5))
                        else
                          (Inr (Gtc_Partial order_id filled_size),
                           if loggable
                           then log_trade cfg w4
                                  (row (py_int filled_size) ''PARTIAL''
                                     (Some (Filled_Of filled_size total_size)))
                           else w4)
                   else timed_out)
              else timed_out
         else
           let (order_details, w1) = get_order_details w order_id;
               sleep = (\<lambda>v. v\<lparr>clock := clock v + 5\<rparr>)
           in if py_truthy order_details then
                (case py_get order_details ''status'' (JStr []) of
                   Inl e \<Rightarrow> (Inl e, w1)
                 | Inr status \<Rightarrow>
                 case get_float (rt_float rt) order_details ''dealSize'' (JInt 0) of
                   Inl e \<Rightarrow> (Inl e, w1)
                 | Inr filled_size \<Rightarrow>
                 case get_float (rt_float rt) order_details ''size'' (JInt contracts) of
                   Inl e \<Rightarrow> (Inl e, w1)
                 | Inr total_size \<Rightarrow>
                   if status = JStr ''done'' then
                     (Inr (Gtc_Filled order_id filled_size),
                      if loggable then log_trade cfg w1 (row \<bar>contracts\<bar> ''FILLED'' None)
                      else w1)
                   else
                     monitor_gtc_order rt cfg (sleep w1) start_time order_id symbol side
                       contracts leverage reduce_only action limit_price)
              else
                monitor_gtc_order rt cfg (sleep w1) start_time order_id symbol side
                  contracts leverage reduce_only action limit_price)"
  by pat_completeness (auto simp only: prod.inject sum.inject sum.distinct)

subsection \<open>Termination: every call consumes the script or the remaining time\<close>

lemma http_replies_le:
  "http w m ep b = (r, w') \<Longrightarrow> length (replies w') \<le> length (replies w)"
  by (auto simp: http_def Let_def split: list.splits)

lemma http_answered:
  "http w m ep b = (r, w') \<Longrightarrow> checked_json r = Inr data
     \<Longrightarrow> length (replies w') < length (replies w)"
  by (auto simp: http_def Let_def checked_json_def split: list.splits)

lemma get_position_mode_replies:
  "get_position_mode w symbol = (mode, w') \<Longrightarrow> length (replies w') \<le> length (replies w)"
  by (auto simp: get_position_mode_def split: prod.splits dest: http_replies_le)

lemma set_position_mode_replies:
  "set_position_mode w symbol mode = (ok, w') \<Longrightarrow> length (replies w') \<le> length (replies w)"
  by (auto simp: set_position_mode_def Let_def split: prod.splits if_splits dest: http_replies_le)

lemma verify_position_mode_replies:
  "verify_position_mode cfg w symbol = (ok, w') \<Longrightarrow> length (replies w') \<le> length (replies w)"
  by (fastforce simp: verify_position_mode_def split: prod.splits if_splits
        dest: get_position_mode_replies set_position_mode_replies)

lemma get_best_bid_ask_replies:
  "get_best_bid_ask str2f w symbol = (q, w') \<Longrightarrow> length (replies w') \<le> length (replies w)"
  by (auto simp: get_best_bid_ask_def split: prod.splits dest: http_replies_le)

lemma calculate_limit_price_replies:
  "calculate_limit_price rt cfg w symbol side = (p, w')
     \<Longrightarrow> length (replies w') \<le> length (replies w)"
  by (auto simp: calculate_limit_price_def split: prod.splits dest: get_best_bid_ask_replies)

lemma get_order_details_replies:
  "get_order_details w order_id = (d, w') \<Longrightarrow> length (replies w') \<le> length (replies w)"
  by (auto simp: get_order_details_def split: prod.splits dest: http_replies_le)

lemma get_order_details_answered:
  "get_order_details w order_id = (d, w') \<Longrightarrow> py_truthy d
     \<Longrightarrow> length (replies w') < length (replies w)"
  by (auto simp: get_order_details_def split: prod.splits sum.splits option.splits
        dest: http_answered)

lemma cancel_order_replies:
  "cancel_order w order_id = (ok, w') \<Longrightarrow> length (replies w') \<le> length (replies w)"
  by (auto simp: cancel_order_def split: prod.splits dest: http_replies_le)

lemma log_trade_replies: "replies (log_trade cfg w row) = replies w"
  by (simp add: log_trade_def)

lemma http_clock: "http w m ep b = (r, w') \<Longrightarrow> clock w' = clock w"
  by (auto simp: http_def Let_def split: list.splits)

lemma get_order_details_clock:
  "get_order_details w order_id = (d, w') \<Longrightarrow> clock w' = clock w"
  by (auto simp: get_order_details_def split: prod.splits dest: http_clock)

termination place_order
proof (relation "measures
    [\<lambda>x. case x of Inl (rt, cfg, w, _) \<Rightarrow> length (replies w)
                  | Inr (rt, cfg, w, _) \<Rightarrow> length (replies w),
     \<lambda>x. case x of Inl _ \<Rightarrow> 0
                  | Inr (rt, cfg, w, start, _) \<Rightarrow>
                      nat (gtc_timeout_seconds cfg - (int (clock w) - int start))]",
    goal_cases)
  case 1
  show ?case by simp
next
  case (2 rt cfg w symbol side contracts leverage reduce_only x xa xb y xc xd xe
        xf xg ya xh xi xj xk xl yb b)
  have "length (replies y) \<le> length (replies w)"
    using 2 by (auto split: if_splits dest: verify_position_mode_replies[OF sym])
  moreover have "length (replies ya) \<le> length (replies xd)"
    using 2 by (auto split: if_splits prod.splits dest: calculate_limit_price_replies)
  moreover have "length (replies yb) < length (replies ya)"
    using 2 http_answered[of ya POST Orders "Order_Body xj" xl yb b] by simp
  ultimately show ?case using 2 by simp
next
  case (3 rt cfg w start_time order_id symbol side contracts leverage reduce_only action
        limit_price x xa xb xc xd y xe b ba xf xg ya xh xi xj)
  have "length (replies y) < length (replies w)"
    using 3 get_order_details_answered[of w order_id xd y] by simp
  moreover have "length (replies ya) \<le> length (replies y)"
    using 3 cancel_order_replies[of y order_id xg ya] by simp
  moreover have "replies xj = replies ya"
    using 3 by (simp add: log_trade_replies)
  ultimately show ?case by simp
next
  case (4 rt cfg w start_time order_id symbol side contracts leverage reduce_only action
        limit_price x xa xb xc xd y xe)
  have "length (replies y) \<le> length (replies w)" and "clock y = clock w"
    using 4 get_order_details_replies[of w order_id xd y]
      get_order_details_clock[of w order_id xd y] by simp_all
  then show ?case using 4 by auto
next
  case (5 rt cfg w start_time order_id symbol side contracts leverage reduce_only action
        limit_price x xa xb xc xd y xe)
  have "length (replies y) \<le> length (replies w)" and "clock y = clock w"
    using 5 get_order_details_replies[of w order_id xd y]
      get_order_details_clock[of w order_id xd y] by simp_all
  then show ?case using 5 by auto
qed

declare place_order.simps [simp del] monitor_gtc_order.simps [simp del]

section \<open>Notions used in the statements\<close>





definition details_request :: "json \<Rightarrow> request" where
  "details_request order_id = \<lparr>rq_method = GET, rq_endpoint = Order order_id, rq_body = No_Body\<rparr>"

definition cancel_request :: "json \<Rightarrow> request" where
  "cancel_request order_id =
     \<lparr>rq_method = DELETE, rq_endpoint = Order order_id, rq_body = No_Body\<rparr>"

fun order_submissions :: "request list \<Rightarrow> order_data list" where
  \<comment> \<open>the orders submitted: the bodies of the \<^verbatim>\<open>POST /api/v1/orders\<close> requests\<close>
  "order_submissions [] = []"
| "order_submissions (rq # rqs) =
     (case (rq_method rq, rq_endpoint rq, rq_body rq) of
        (POST, Orders, Order_Body od) \<Rightarrow> od # order_submissions rqs
      | _ \<Rightarrow> order_submissions rqs)"

section \<open>Example data\<close>

text \<open>A successful API reply carrying \<open>d\<close> as its \<^verbatim>\<open>data\<close>, and a rejection with a message.\<close>

definition api_ok :: "json \<Rightarrow> reply" where
  "api_ok d = Response 200 [] (JSON (JObj [(''code'', JStr ''200000''), (''data'', d)]))"

definition api_error :: "string \<Rightarrow> string \<Rightarrow> reply" where
  "api_error code msg = Response 200 [] (JSON (JObj [(''code'', JStr code), (''msg'', JStr msg)]))"

definition live_gtc :: executor where
  \<comment> \<open>a live executor placing GTC limit orders, with a timeout of two polls\<close>
  "live_gtc =
     \<lparr>dry_run = False, max_order_usd = 10000, min_order_usd = 100,
      margin_mode = ''ISOLATED'', position_mode = ''ONE_WAY'', auto_set_position_mode = False,
      order_type = ''limit'', time_in_force = ''GTC'', slippage_pct = 0,
      gtc_timeout_seconds = 10, trade_logging_enabled = True\<rparr>"



definition cpython :: runtime where
  \<comment> \<open>a runtime that parses the one price text of the examples and draws two uuids\<close>
  "cpython =
     \<lparr>rt_float = (\<lambda>s. if s = ''50000'' then Some 50000 else None),
      rt_uuid4 = (\<lambda>n. if n = 0 then ''1b4e28ba-2fa1-41d2-883f-0016d3cca427''
                       else ''6fa459ea-ee8a-4ca4-894e-db77e160355e'')\<rparr>"

definition exchange :: "reply list \<Rightarrow> world" where
  \<comment> \<open>a fresh run against an exchange that will give these replies\<close>
  "exchange rs =
     \<lparr>replies = rs, sent = [], clock = 0, ledger = [], logged = [], uuids_drawn = 0\<rparr>"

definition mode_reply :: reply where
  "mode_reply = api_ok (JObj [(''positionMode'', JInt 0)])"

definition ticker_reply :: reply where
  "ticker_reply =
     api_ok (JObj [(''bestBidPrice'', JStr ''50000''), (''bestAskPrice'', JStr ''50000''),
                   (''price'', JStr ''50000'')])"

definition order_reply :: "string \<Rightarrow> reply" where
  "order_reply oid = api_ok (JObj [(''orderId'', JStr oid)])"

definition details_reply :: "string \<Rightarrow> int \<Rightarrow> int \<Rightarrow> reply" where
  "details_reply status filled sz =
     api_ok (JObj [(''status'', JStr status), (''dealSize'', JInt filled), (''size'', JInt sz)])"

definition at_timeout :: "reply list \<Rightarrow> world" where
  \<comment> \<open>ten seconds into a run, with these replies still to come\<close>
  "at_timeout rs = (exchange rs)\<lparr>clock := 10\<rparr>"

definition one_sided_ticker :: json where
  \<comment> \<open>a ticker whose book has no bid: the ask is 48001, the last trade 48000\<close>
  "one_sided_ticker =
     JObj [(''bestBidPrice'', JNum 0), (''bestAskPrice'', JNum 48001), (''price'', JNum 48000)]"

section \<open>Notions used in the statements on the endpoint variants\<close>

definition account_request :: "string option \<Rightarrow> request" where
  "account_request currency =
     \<lparr>rq_method = GET, rq_endpoint = Account_Overview currency, rq_body = No_Body\<rparr>"

definition positions_request :: "string option \<Rightarrow> request" where
  "positions_request currency =
     \<lparr>rq_method = GET, rq_endpoint = Positions currency, rq_body = No_Body\<rparr>"

definition bad_request :: "reply \<Rightarrow> bool" where
  \<comment> \<open>an HTTP 400\<close>
  "bad_request r = (case r of Raises e \<Rightarrow> False | Response status txt pl \<Rightarrow> status = 400)"

definition api_rejection :: "reply \<Rightarrow> json \<Rightarrow> bool" where
  \<comment> \<open>a response that is no HTTP error and carries a dictionary whose \<^verbatim>\<open>code\<close> is not
      \<^verbatim>\<open>'200000'\<close> and whose \<^verbatim>\<open>msg\<close> is \<open>msg\<close>\<close>
  "api_rejection r msg =
     (case r of
        Raises e \<Rightarrow> False
      | Response status txt pl \<Rightarrow>
          \<not> (400 \<le> status \<and> status < 600) \<and>
          (case pl of
             Not_JSON t \<Rightarrow> False
           | JSON data \<Rightarrow>
               (case data of
                  JObj kvs \<Rightarrow> map_of kvs ''code'' \<noteq> Some (JStr ''200000'') \<and>
                              map_of kvs ''msg'' = Some msg
                | _ \<Rightarrow> False)))"

section \<open>Properties of the float model\<close>

lemma round_half_even_minus: "round_half_even (- y) = - round_half_even y"
proof (cases "y \<in> \<int>")
  case True
  then obtain k where "y = of_int k" by (auto elim: Ints_cases)
  then show ?thesis
    by (simp add: round_half_even_def del: of_int_minus add: of_int_minus[symmetric])
next
  case False
  then have ne: "y \<noteq> of_int \<lfloor>y\<rfloor>" by (metis Ints_of_int)
  then have c: "\<lceil>y\<rceil> = \<lfloor>y\<rfloor> + 1" by (simp add: ceiling_altdef)
  have f: "\<lfloor>- y\<rfloor> = - \<lfloor>y\<rfloor> - 1" using c by (simp add: floor_minus)
  have r0: "y - of_int \<lfloor>y\<rfloor> \<noteq> 0" using ne by simp
  show ?thesis
    unfolding round_half_even_def Let_def f using r0
    by (auto simp: field_simps)
qed

lemma fl_minus: "fl (- x) = - fl x"
  by (simp add: fl_def ulp_exp_def round_half_even_minus)

lemma fsub_zero_left: "fsub 0 t = - fl t"
  by (simp add: fsub_def fl_minus)

section \<open>Properties of PortfolioCalculator\<close>

lemma calculate_metrics_fields:
  assumes "calculate_metrics str2f cold acct poss price target threshold = Inr m"
  shows "current_btc_allocation m =
           (if 0 < total_portfolio_usd m
            then fmul (fdiv (net_btc_exposure_usd m) (total_portfolio_usd m)) 100 else 0)"
    and "current_usd_allocation m =
           (if 0 < total_portfolio_usd m
            then fmul (fdiv (usd_exposure m) (total_portfolio_usd m)) 100 else 0)"
    and "allocation_deviation m = fsub (current_btc_allocation m) target"
    and "needs_rebalancing m = (threshold < \<bar>allocation_deviation m\<bar>)"
    and "net_btc_exposure_usd m = fsub (gross_btc_exposure_usd m) (current_short_usd m)"
    and "usd_exposure m = current_short_usd m"
    and "gross_btc_exposure_usd m = fadd (fmul cold price) (fmul (futures_btc m) price)"
    and "total_portfolio_usd m = fmul (fadd cold (futures_btc m)) price"
  using assms
  by (auto simp: calculate_metrics_def Let_def split: sum.splits prod.splits)

text \<open>
  C3, as the spec states it: whenever the total portfolio value is zero, both allocations
  are 0 and \<open>needs_rebalancing\<close> is false, whatever the target and the threshold. It
  fails: with nothing held (cold storage 0, equity 0) at price 50000, target 50 and
  threshold 1, the total is 0, the deviation is \<open>0 - 50\<close> and \<open>needs_rebalancing\<close> is
  true.
\<close>

theorem zero_portfolio_guard_counterexample:
  "\<not> isl (calculate_metrics Map.empty 0 (JObj [(''accountEquity'', JInt 0)]) [] 50000 50 1) \<and>
   total_portfolio_usd
     (projr (calculate_metrics Map.empty 0 (JObj [(''accountEquity'', JInt 0)]) [] 50000 50 1))
     = 0 \<and>
   needs_rebalancing
     (projr (calculate_metrics Map.empty 0 (JObj [(''accountEquity'', JInt 0)]) [] 50000 50 1))"
  by code_simp

text \<open>
  C3, amended: for every input of \<^verbatim>\<open>calculate_metrics\<close> whose total portfolio value is
  zero, both allocations are 0, and \<open>needs_rebalancing\<close> is true exactly when the
  absolute value of the target allocation exceeds the threshold (the deviation is
  \<open>0 - target\<close>). The target is a float.
\<close>

theorem zero_portfolio_allocations:
  assumes "calculate_metrics str2f cold acct poss price target threshold = Inr m"
    and "total_portfolio_usd m = 0"
    and "is_float target"
  shows "current_btc_allocation m = 0 \<and> current_usd_allocation m = 0 \<and>
         needs_rebalancing m = (threshold < \<bar>target\<bar>)"
  using calculate_metrics_fields(1-4)[OF assms(1)] assms(2,3)
  by (simp add: fsub_zero_left is_float_def)

theorem zero_portfolio_allocations_witness:
  "current_btc_allocation
     (projr (calculate_metrics Map.empty 0 (JObj [(''accountEquity'', JInt 0)]) [] 42000 60 2))
     = 0 \<and>
   current_usd_allocation
     (projr (calculate_metrics Map.empty 0 (JObj [(''accountEquity'', JInt 0)]) [] 42000 60 2))
     = 0 \<and>
   needs_rebalancing
     (projr (calculate_metrics Map.empty 0 (JObj [(''accountEquity'', JInt 0)]) [] 42000 60 2))
     = ((2::rat) < \<bar>60\<bar>)"
proof -
  let ?r = "calculate_metrics Map.empty 0 (JObj [(''accountEquity'', JInt 0)]) [] 42000 60 2"
  have a: "?r = Inr (projr ?r)" by code_simp
  have b: "total_portfolio_usd (projr ?r) = 0" by code_simp
  have c: "is_float 60" by code_simp
  show ?thesis using zero_portfolio_allocations[OF a b c] .
qed




section \<open>Properties of OrderExecutor.place_order\<close>

lemma http_frame:
  assumes "http w m ep b = (r, w')"
  shows "sent w' = sent w @ [\<lparr>rq_method = m, rq_endpoint = ep, rq_body = b\<rparr>] \<and>
         ledger w' = ledger w \<and> logged w' = logged w \<and> uuids_drawn w' = uuids_drawn w \<and>
         clock w' = clock w"
  using assms by (auto simp: http_def Let_def split: list.splits)




lemma place_order_rejected:
  assumes "max_order_usd cfg < of_int \<bar>contracts\<bar> \<or> of_int \<bar>contracts\<bar> < min_order_usd cfg"
  shows "\<exists>e. place_order rt cfg w symbol side contracts leverage reduce_only = (Failure e, w)"
  using assms by (subst place_order.simps) (auto simp: Let_def)

text \<open>
  C5: a call of \<^verbatim>\<open>place_order\<close> whose contract count is above the configured maximum
  or below the configured minimum returns a failure value and leaves the state as it
  was: no request of any kind is sent (in particular no order is submitted), no reply of
  the exchange is consumed, nothing is written to the ledger.
\<close>

theorem place_order_size_gate:
  assumes "max_order_usd cfg < of_int \<bar>contracts\<bar> \<or> of_int \<bar>contracts\<bar> < min_order_usd cfg"
  shows "(\<exists>e. fst (place_order rt cfg w symbol side contracts leverage reduce_only) = Failure e) \<and>
         snd (place_order rt cfg w symbol side contracts leverage reduce_only) = w \<and>
         sent (snd (place_order rt cfg w symbol side contracts leverage reduce_only)) = sent w"
  using place_order_rejected[OF assms, of rt w symbol side leverage reduce_only] by auto

theorem place_order_size_gate_witness:
  "(\<exists>e. fst (place_order cpython live_gtc (exchange [mode_reply, ticker_reply, order_reply ''o1''])
            ''XBTUSDM'' ''sell'' 20000 1 False) = Failure e) \<and>
   snd (place_order cpython live_gtc (exchange [mode_reply, ticker_reply, order_reply ''o1''])
            ''XBTUSDM'' ''sell'' 20000 1 False)
     = exchange [mode_reply, ticker_reply, order_reply ''o1''] \<and>
   sent (snd (place_order cpython live_gtc (exchange [mode_reply, ticker_reply, order_reply ''o1''])
            ''XBTUSDM'' ''sell'' 20000 1 False))
     = sent (exchange [mode_reply, ticker_reply, order_reply ''o1''])"
proof -
  have "max_order_usd live_gtc < of_int \<bar>20000\<bar> \<or> of_int \<bar>20000\<bar> < min_order_usd live_gtc"
    by (simp add: live_gtc_def)
  from place_order_size_gate[OF this] show ?thesis .
qed




section \<open>Properties of OrderExecutor.monitor_gtc_order\<close>

lemma get_order_details_frame:
  assumes "get_order_details w order_id = (d, w')"
  shows "sent w' = sent w @ [details_request order_id] \<and>
         ledger w' = ledger w \<and> logged w' = logged w \<and> uuids_drawn w' = uuids_drawn w \<and>
         clock w' = clock w"
  using assms
  by (auto simp: get_order_details_def details_request_def split: prod.splits dest!: http_frame)

lemma cancel_order_frame:
  assumes "cancel_order w order_id = (ok, w')"
  shows "sent w' = sent w @ [cancel_request order_id] \<and>
         ledger w' = ledger w \<and> logged w' = logged w \<and> uuids_drawn w' = uuids_drawn w \<and>
         clock w' = clock w"
  using assms
  by (auto simp: cancel_order_def cancel_request_def split: prod.splits dest!: http_frame)

text \<open>
  The path through the timeout branch that ends in \<^verbatim>\<open>return self.place_order(...)\<close>:
  the order is not fully filled and the truncated remainder is positive.
\<close>

lemma monitor_timeout_unfilled:
  assumes timeout: "gtc_timeout_seconds cfg \<le> int (clock w) - int start_time"
    and details: "get_order_details w order_id = (d, w1)" "py_truthy d"
    and filled: "get_float (rt_float rt) d ''dealSize'' (JInt 0) = Inr filled_size"
    and total: "get_float (rt_float rt) d ''size'' (JInt contracts) = Inr total_size"
    and less: "filled_size < total_size"
    and unfilled: "0 < py_int (fsub total_size filled_size)"
    and cancel: "cancel_order w1 order_id = (cancel_success, w2)"
  shows "monitor_gtc_order rt cfg w start_time order_id symbol side contracts leverage
           reduce_only action limit_price =
         (let w3 = (if cancel_success
                    then w2\<lparr>logged := logged w2 @ [Gtc_Cancelled order_id]\<rparr> else w2);
              w4 = (if filled_size = 0 \<and> action \<noteq> [] \<and> truthy_price limit_price
                    then log_trade cfg w3
                           \<lparr>tr_action = underscored action, tr_symbol = symbol,
                            tr_contracts = \<bar>contracts\<bar>, tr_limit_price = limit_price,
                            tr_order_id = order_id, tr_slippage = Some (slippage_pct cfg),
                            tr_status = ''CANCELLED'',
                            tr_error = Some (Row_Text ''GTC timeout - no fill'')\<rparr>
                    else w3)
          in case place_order rt cfg w4 symbol side (py_int (fsub total_size filled_size))
                    leverage reduce_only of
               (res, w5) \<Rightarrow> (Inr res, w5))"
  using assms
  by (subst monitor_gtc_order.simps) (simp add: Let_def)



text \<open>
  C1, as the spec states it: when the timeout elapses with nothing filled, the controller
  cancels, writes exactly one CANCELLED record and stops without placing a new order. It
  fails: with \<^verbatim>\<open>dealSize\<close> 0 of \<^verbatim>\<open>size\<close> 1000 at the timeout, the order is cancelled, the
  CANCELLED record is written, and a new order for all 1000 contracts is submitted; here
  it fills at once and adds a FILLED record.
\<close>

theorem zero_fill_counterexample:
  "map od_size (order_submissions (sent (snd
     (monitor_gtc_order cpython live_gtc
        (at_timeout [details_reply ''open'' 0 1000, api_ok (JObj []), mode_reply, ticker_reply,
                     order_reply ''o2'', details_reply ''done'' 1000 1000])
        0 (JStr ''o1'') ''XBTUSDM'' ''sell'' 1000 1 False ''OPEN SHORT'' (Some 50000))))) = [1000] \<and>
   map tr_status (ledger (snd
     (monitor_gtc_order cpython live_gtc
        (at_timeout [details_reply ''open'' 0 1000, api_ok (JObj []), mode_reply, ticker_reply,
                     order_reply ''o2'', details_reply ''done'' 1000 1000])
        0 (JStr ''o1'') ''XBTUSDM'' ''sell'' 1000 1 False ''OPEN SHORT'' (Some 50000))))
     = [''CANCELLED'', ''FILLED'']"
  by code_simp

text \<open>
  C1, amended: when the timeout elapses with nothing filled of an order of at least one
  contract, the controller sends the cancellation, writes exactly one CANCELLED record
  for the order (trade logging enabled) and then resubmits: it returns what
  \<^verbatim>\<open>place_order\<close> returns for the whole size.
\<close>

theorem zero_fill_cancelled_then_resubmitted:
  assumes "gtc_timeout_seconds cfg \<le> int (clock w) - int start_time"
    and "get_order_details w order_id = (d, w1)" and "py_truthy d"
    and "get_float (rt_float rt) d ''dealSize'' (JInt 0) = Inr 0"
    and "get_float (rt_float rt) d ''size'' (JInt contracts) = Inr total_size"
    and "is_float total_size" and "1 \<le> total_size"
    and "action \<noteq> []" and "truthy_price limit_price" and "trade_logging_enabled cfg"
  shows "\<exists>w4. monitor_gtc_order rt cfg w start_time order_id symbol side contracts leverage
                reduce_only action limit_price =
              (case place_order rt cfg w4 symbol side (py_int total_size) leverage reduce_only of
                 (res, w5) \<Rightarrow> (Inr res, w5)) \<and>
              sent w4 = sent w @ [details_request order_id, cancel_request order_id] \<and>
              ledger w4 = ledger w @
                [\<lparr>tr_action = underscored action, tr_symbol = symbol,
                  tr_contracts = \<bar>contracts\<bar>, tr_limit_price = limit_price,
                  tr_order_id = order_id, tr_slippage = Some (slippage_pct cfg),
                  tr_status = ''CANCELLED'',
                  tr_error = Some (Row_Text ''GTC timeout - no fill'')\<rparr>]"
proof -
  obtain cancel_success w2 where c: "cancel_order w1 order_id = (cancel_success, w2)"
    by (cases "cancel_order w1 order_id")
  note f1 = get_order_details_frame[OF assms(2)] and f2 = cancel_order_frame[OF c]
  have sub: "fsub total_size 0 = total_size"
    using assms(6) by (simp add: fsub_def is_float_def)
  have pos: "0 < py_int total_size"
    using assms(7) by (simp add: py_int_def)
  have less: "0 < total_size" using assms(7) by simp
  let ?w3 = "if cancel_success then w2\<lparr>logged := logged w2 @ [Gtc_Cancelled order_id]\<rparr> else w2"
  let ?row = "\<lparr>tr_action = underscored action, tr_symbol = symbol,
               tr_contracts = \<bar>contracts\<bar>, tr_limit_price = limit_price,
               tr_order_id = order_id, tr_slippage = Some (slippage_pct cfg),
               tr_status = ''CANCELLED'',
               tr_error = Some (Row_Text ''GTC timeout - no fill'')\<rparr>"
  have "monitor_gtc_order rt cfg w start_time order_id symbol side contracts leverage
          reduce_only action limit_price =
        (case place_order rt cfg (log_trade cfg ?w3 ?row) symbol side (py_int total_size)
                leverage reduce_only of
           (res, w5) \<Rightarrow> (Inr res, w5))"
    using monitor_timeout_unfilled[OF assms(1,2,3,4,5) less _ c, of symbol side leverage
        reduce_only action limit_price] pos assms(8,9)
    by (simp add: Let_def sub)
  moreover have "sent (log_trade cfg ?w3 ?row)
                   = sent w @ [details_request order_id, cancel_request order_id]"
    using f1 f2 by (simp add: log_trade_def)
  moreover have "ledger (log_trade cfg ?w3 ?row) = ledger w @ [?row]"
    using f1 f2 assms(10) by (simp add: log_trade_def)
  ultimately show ?thesis by blast
qed

theorem zero_fill_cancelled_then_resubmitted_witness:
  "\<exists>w4. monitor_gtc_order cpython live_gtc
           (at_timeout [details_reply ''open'' 0 1000, api_ok (JObj []), mode_reply, ticker_reply,
                        order_reply ''o2'', details_reply ''done'' 1000 1000])
           0 (JStr ''o1'') ''XBTUSDM'' ''sell'' 1000 1 False ''OPEN SHORT'' (Some 50000) =
         (case place_order cpython live_gtc w4 ''XBTUSDM'' ''sell'' 1000 1 False of
            (res, w5) \<Rightarrow> (Inr res, w5)) \<and>
         sent w4 = [details_request (JStr ''o1''), cancel_request (JStr ''o1'')] \<and>
         ledger w4 =
           [\<lparr>tr_action = ''OPEN_SHORT'', tr_symbol = ''XBTUSDM'', tr_contracts = 1000,
             tr_limit_price = Some 50000, tr_order_id = JStr ''o1'', tr_slippage = Some 0,
             tr_status = ''CANCELLED'',
             tr_error = Some (Row_Text ''GTC timeout - no fill'')\<rparr>]"
proof -
  let ?w = "at_timeout [details_reply ''open'' 0 1000, api_ok (JObj []), mode_reply, ticker_reply,
                        order_reply ''o2'', details_reply ''done'' 1000 1000]"
  let ?d = "fst (get_order_details ?w (JStr ''o1''))"
  let ?w1 = "snd (get_order_details ?w (JStr ''o1''))"
  have h1: "gtc_timeout_seconds live_gtc \<le> int (clock ?w) - int 0"
    by (simp add: live_gtc_def at_timeout_def)
  have h2: "get_order_details ?w (JStr ''o1'') = (?d, ?w1)" by simp
  have h3: "py_truthy ?d" by code_simp
  have h4: "get_float (rt_float cpython) ?d ''dealSize'' (JInt 0) = Inr 0" by code_simp
  have h5: "get_float (rt_float cpython) ?d ''size'' (JInt 1000) = Inr 1000" by code_simp
  have h6: "is_float 1000" by code_simp
  have h7: "(1::rat) \<le> 1000" by simp
  have h8: "''OPEN SHORT'' \<noteq> []" by simp
  have h9: "truthy_price (Some 50000)" by (simp add: truthy_price_def)
  have h10: "trade_logging_enabled live_gtc" by (simp add: live_gtc_def)
  have u: "py_int 1000 = 1000" "underscored ''OPEN SHORT'' = ''OPEN_SHORT''"
    "slippage_pct live_gtc = 0"
    by (simp_all add: py_int_def underscored_def live_gtc_def)
  have s: "sent ?w = []" "ledger ?w = []" by (simp_all add: at_timeout_def exchange_def)
  show ?thesis
    using zero_fill_cancelled_then_resubmitted[OF h1 h2 h3 h4 h5 h6 h7 h8 h9 h10,
        of "''XBTUSDM''" "''sell''" 1 False]
    unfolding u s by simp
qed

text \<open>
  C2, evaluated on the spec's own scenario: 400 of 1000 contracts are filled at the
  timeout. The remainder is cancelled and a new order for exactly 600 contracts is
  submitted, but no PARTIAL record is written for the 400 filled contracts: the only
  ledger record of the run is the FILLED record of the new order, for 600.
\<close>

theorem partial_fill_leaves_no_partial_record:
  "map od_size (order_submissions (sent (snd
     (monitor_gtc_order cpython live_gtc
        (at_timeout [details_reply ''open'' 400 1000, api_ok (JObj []), mode_reply, ticker_reply,
                     order_reply ''o2'', details_reply ''done'' 600 600])
        0 (JStr ''o1'') ''XBTUSDM'' ''sell'' 1000 1 False ''OPEN SHORT'' (Some 50000))))) = [600] \<and>
   map tr_status (ledger (snd
     (monitor_gtc_order cpython live_gtc
        (at_timeout [details_reply ''open'' 400 1000, api_ok (JObj []), mode_reply, ticker_reply,
                     order_reply ''o2'', details_reply ''done'' 600 600])
        0 (JStr ''o1'') ''XBTUSDM'' ''sell'' 1000 1 False ''OPEN SHORT'' (Some 50000))))
     = [''FILLED''] \<and>
   map tr_contracts (ledger (snd
     (monitor_gtc_order cpython live_gtc
        (at_timeout [details_reply ''open'' 400 1000, api_ok (JObj []), mode_reply, ticker_reply,
                     order_reply ''o2'', details_reply ''done'' 600 600])
        0 (JStr ''o1'') ''XBTUSDM'' ''sell'' 1000 1 False ''OPEN SHORT'' (Some 50000))))
     = [600]"
  by code_simp

section \<open>Results and ledger records of an order attempt\<close>








section \<open>Properties of KuCoinFuturesClient\<close>

text \<open>
  C4, as the spec states it: when the bid or the ask of a parsed ticker is zero and the
  last trade price is positive, both sides of the returned quote are the last trade
  price. It fails: with no bid, an ask of 48001 and a last trade at 48000, the returned
  ask is still 48001.
\<close>

theorem last_price_fallback_counterexample:
  "map_option best_bid
     (fst (get_best_bid_ask (rt_float cpython) (exchange [api_ok one_sided_ticker]) ''XBTUSDM''))
     = Some 48000 \<and>
   map_option best_ask
     (fst (get_best_bid_ask (rt_float cpython) (exchange [api_ok one_sided_ticker]) ''XBTUSDM''))
     = Some 48001 \<and>
   map_option last_price
     (fst (get_best_bid_ask (rt_float cpython) (exchange [api_ok one_sided_ticker]) ''XBTUSDM''))
     = Some 48000"
  by code_simp

text \<open>
  C4, amended: when the exchange answers the ticker request with a successful reply
  whose bid, ask and last price \<^verbatim>\<open>float\<close> accepts, the bid or the ask is zero and the
  last trade price is positive, \<^verbatim>\<open>get_best_bid_ask\<close> returns a quote in which each side
  that is not positive is replaced by the last trade price and a positive side is kept.
  Both sides equal the last trade price only when neither is positive.
\<close>

theorem last_price_fallback:
  assumes "replies w = api_ok ticker_data # rs"
    and "get_float str2f ticker_data ''bestBidPrice'' (JInt 0) = Inr bid"
    and "get_float str2f ticker_data ''bestAskPrice'' (JInt 0) = Inr ask"
    and "get_float str2f ticker_data ''price'' (JInt 0) = Inr last_px"
    and "bid = 0 \<or> ask = 0" and "0 < last_px"
  shows "\<exists>q. fst (get_best_bid_ask str2f w symbol) = Some q \<and>
             best_bid q = (if 0 < bid then bid else last_px) \<and>
             best_ask q = (if 0 < ask then ask else last_px) \<and>
             last_price q = last_px"
proof -
  obtain kvs where "ticker_data = JObj kvs"
    using assms(2) by (cases ticker_data) (auto simp: get_float_def py_get_def)
  then show ?thesis
    using assms
    by (auto simp: get_best_bid_ask_def http_def api_ok_def checked_json_def api_data_def
          ticker_quote_def py_get_def)
qed

theorem last_price_fallback_witness:
  "\<exists>q. fst (get_best_bid_ask (rt_float cpython) (exchange [api_ok one_sided_ticker]) ''XBTUSDM'')
          = Some q \<and>
       best_bid q = 48000 \<and> best_ask q = 48001 \<and> last_price q = 48000"
proof -
  have r: "replies (exchange [api_ok one_sided_ticker]) = api_ok one_sided_ticker # []"
    by (simp add: exchange_def)
  have b: "get_float (rt_float cpython) one_sided_ticker ''bestBidPrice'' (JInt 0) = Inr 0"
    by (simp add: get_float_def py_get_def one_sided_ticker_def)
  have a: "get_float (rt_float cpython) one_sided_ticker ''bestAskPrice'' (JInt 0) = Inr 48001"
    by (simp add: get_float_def py_get_def one_sided_ticker_def)
  have p: "get_float (rt_float cpython) one_sided_ticker ''price'' (JInt 0) = Inr 48000"
    by (simp add: get_float_def py_get_def one_sided_ticker_def)
  have z: "(0::pyfloat) = 0 \<or> (48001::pyfloat) = 0" and l: "(0::pyfloat) < 48000"
    by simp_all
  show ?thesis
    using last_price_fallback[OF r b a p z l, of "''XBTUSDM''"] by simp
qed

lemma attempt_reply_bad_request:
  "bad_request r \<Longrightarrow>
     attempt_reply attempt_name dflt r = Inl (Err_Text (''400 Bad Request with '' @ attempt_name))"
  by (auto simp: bad_request_def attempt_reply_def split: reply.splits)

lemma attempt_reply_api_rejection:
  "api_rejection r msg \<Longrightarrow> attempt_reply attempt_name dflt r = Inl (Err_Api msg)"
  by (auto simp: api_rejection_def attempt_reply_def checked_json_def api_data_def py_get_def
        split: reply.splits payload.splits json.splits option.splits)

lemma attempt_reply_api_ok: "attempt_reply attempt_name dflt (api_ok d) = Inr d"
  by (simp add: attempt_reply_def api_ok_def checked_json_def api_data_def py_get_def)

lemma get_futures_account_two_replies:
  assumes "replies w = r1 # r2 # rs"
  shows "get_futures_account w currency =
     (case attempt_reply ''without parameters'' (JObj []) r1 of
        Inr d \<Rightarrow> (d, w\<lparr>replies := r2 # rs, sent := sent w @ [account_request None]\<rparr>)
      | Inl e1 \<Rightarrow>
          (case attempt_reply (''with currency='' @ currency) (JObj []) r2 of
             Inr d \<Rightarrow>
               (d, w\<lparr>replies := rs,
                      sent := sent w @ [account_request None, account_request (Some currency)]\<rparr>)
           | Inl e2 \<Rightarrow>
               (JObj [],
                w\<lparr>replies := rs,
                   sent := sent w @ [account_request None, account_request (Some currency)],
                   logged := logged w @ [Fetch_Failed ''ACCOUNT'' (Some e2)]\<rparr>)))"
  using assms
  by (simp add: get_futures_account_def http_def account_request_def split: sum.splits)

lemma get_positions_two_replies:
  assumes "replies w = r1 # r2 # rs"
  shows "get_positions w currency =
     (case (case attempt_reply ''without parameters'' (JArr []) r1 of
              Inl e \<Rightarrow> Inl e
            | Inr d \<Rightarrow> (case filter_open d of Inl e \<Rightarrow> Inl (Err_Raised e) | Inr ps \<Rightarrow> Inr ps)) of
        Inr ps \<Rightarrow> (ps, w\<lparr>replies := r2 # rs, sent := sent w @ [positions_request None]\<rparr>)
      | Inl e1 \<Rightarrow>
          (case (case attempt_reply (''with currency='' @ currency) (JArr []) r2 of
                   Inl e \<Rightarrow> Inl e
                 | Inr d \<Rightarrow>
                     (case filter_open d of Inl e \<Rightarrow> Inl (Err_Raised e) | Inr ps \<Rightarrow> Inr ps)) of
             Inr ps \<Rightarrow>
               (ps, w\<lparr>replies := rs,
                       sent := sent w @ [positions_request None, positions_request (Some currency)]\<rparr>)
           | Inl e2 \<Rightarrow>
               ([],
                w\<lparr>replies := rs,
                   sent := sent w @ [positions_request None, positions_request (Some currency)],
                   logged := logged w @ [Fetch_Failed ''POSITIONS'' (Some e2)]\<rparr>)))"
  using assms
  by (simp add: get_positions_def http_def positions_request_def split: sum.splits)

text \<open>
  C9: \<^verbatim>\<open>get_futures_account\<close> and \<^verbatim>\<open>get_positions\<close> request the parameterless path
  first. When the exchange answers it with an HTTP 400 or with a code other than
  \<^verbatim>\<open>'200000'\<close>, the currency-qualified path is requested next, and a successful reply
  to it is the result, with no failure reported. The failure (the empty result and the
  logged \<^verbatim>\<open>FAILED TO FETCH ... - ALL METHODS TRIED\<close>) comes only after both paths were
  requested, and the last error it reports is that of the second path: the exchange's
  \<^verbatim>\<open>msg\<close> as received, or the text built for a 400.
\<close>

theorem endpoint_variants_fallback:
  assumes "replies w = r1 # r2 # rs"
  shows
    "(\<exists>more. sent (snd (get_futures_account w currency)) = sent w @ account_request None # more) \<and>
     (\<exists>more. sent (snd (get_positions w currency)) = sent w @ positions_request None # more) \<and>
     (logged (snd (get_futures_account w currency)) = logged w \<or>
      fst (get_futures_account w currency) = JObj [] \<and>
      sent (snd (get_futures_account w currency))
        = sent w @ [account_request None, account_request (Some currency)] \<and>
      (\<exists>e. logged (snd (get_futures_account w currency))
             = logged w @ [Fetch_Failed ''ACCOUNT'' (Some e)])) \<and>
     (logged (snd (get_positions w currency)) = logged w \<or>
      fst (get_positions w currency) = [] \<and>
      sent (snd (get_positions w currency))
        = sent w @ [positions_request None, positions_request (Some currency)] \<and>
      (\<exists>e. logged (snd (get_positions w currency))
             = logged w @ [Fetch_Failed ''POSITIONS'' (Some e)])) \<and>
     (bad_request r1 \<or> api_rejection r1 msg1 \<longrightarrow>
        sent (snd (get_futures_account w currency))
          = sent w @ [account_request None, account_request (Some currency)] \<and>
        sent (snd (get_positions w currency))
          = sent w @ [positions_request None, positions_request (Some currency)] \<and>
        (r2 = api_ok d \<longrightarrow>
           fst (get_futures_account w currency) = d \<and>
           logged (snd (get_futures_account w currency)) = logged w) \<and>
        (r2 = api_ok (JArr ps) \<and> open_positions ps = Inr opened \<longrightarrow>
           fst (get_positions w currency) = opened \<and>
           logged (snd (get_positions w currency)) = logged w) \<and>
        (bad_request r2 \<longrightarrow>
           fst (get_futures_account w currency) = JObj [] \<and>
           logged (snd (get_futures_account w currency))
             = logged w @ [Fetch_Failed ''ACCOUNT''
                             (Some (Err_Text (''400 Bad Request with with currency='' @ currency)))] \<and>
           fst (get_positions w currency) = [] \<and>
           logged (snd (get_positions w currency))
             = logged w @ [Fetch_Failed ''POSITIONS''
                             (Some (Err_Text (''400 Bad Request with with currency='' @ currency)))]) \<and>
        (api_rejection r2 msg2 \<longrightarrow>
           fst (get_futures_account w currency) = JObj [] \<and>
           logged (snd (get_futures_account w currency))
             = logged w @ [Fetch_Failed ''ACCOUNT'' (Some (Err_Api msg2))] \<and>
           fst (get_positions w currency) = [] \<and>
           logged (snd (get_positions w currency))
             = logged w @ [Fetch_Failed ''POSITIONS'' (Some (Err_Api msg2))]))"
proof -
  note a = get_futures_account_two_replies[OF assms, of currency]
  note p = get_positions_two_replies[OF assms, of currency]
  have first_a: "\<exists>more. sent (snd (get_futures_account w currency))
                          = sent w @ account_request None # more"
    by (auto simp: a split: sum.splits)
  have first_p: "\<exists>more. sent (snd (get_positions w currency))
                          = sent w @ positions_request None # more"
    by (auto simp: p split: sum.splits)
  have fail_a: "logged (snd (get_futures_account w currency)) = logged w \<or>
      fst (get_futures_account w currency) = JObj [] \<and>
      sent (snd (get_futures_account w currency))
        = sent w @ [account_request None, account_request (Some currency)] \<and>
      (\<exists>e. logged (snd (get_futures_account w currency))
             = logged w @ [Fetch_Failed ''ACCOUNT'' (Some e)])"
    by (auto simp: a split: sum.splits)
  have fail_p: "logged (snd (get_positions w currency)) = logged w \<or>
      fst (get_positions w currency) = [] \<and>
      sent (snd (get_positions w currency))
        = sent w @ [positions_request None, positions_request (Some currency)] \<and>
      (\<exists>e. logged (snd (get_positions w currency))
             = logged w @ [Fetch_Failed ''POSITIONS'' (Some e)])"
    by (auto simp: p split: sum.splits)
  have next_variant: "bad_request r1 \<or> api_rejection r1 msg1 \<longrightarrow>
        sent (snd (get_futures_account w currency))
          = sent w @ [account_request None, account_request (Some currency)] \<and>
        sent (snd (get_positions w currency))
          = sent w @ [positions_request None, positions_request (Some currency)] \<and>
        (r2 = api_ok d \<longrightarrow>
           fst (get_futures_account w currency) = d \<and>
           logged (snd (get_futures_account w currency)) = logged w) \<and>
        (r2 = api_ok (JArr ps) \<and> open_positions ps = Inr opened \<longrightarrow>
           fst (get_positions w currency) = opened \<and>
           logged (snd (get_positions w currency)) = logged w) \<and>
        (bad_request r2 \<longrightarrow>
           fst (get_futures_account w currency) = JObj [] \<and>
           logged (snd (get_futures_account w currency))
             = logged w @ [Fetch_Failed ''ACCOUNT''
                             (Some (Err_Text (''400 Bad Request with with currency='' @ currency)))] \<and>
           fst (get_positions w currency) = [] \<and>
           logged (snd (get_positions w currency))
             = logged w @ [Fetch_Failed ''POSITIONS''
                             (Some (Err_Text (''400 Bad Request with with currency='' @ currency)))]) \<and>
        (api_rejection r2 msg2 \<longrightarrow>
           fst (get_futures_account w currency) = JObj [] \<and>
           logged (snd (get_futures_account w currency))
             = logged w @ [Fetch_Failed ''ACCOUNT'' (Some (Err_Api msg2))] \<and>
           fst (get_positions w currency) = [] \<and>
           logged (snd (get_positions w currency))
             = logged w @ [Fetch_Failed ''POSITIONS'' (Some (Err_Api msg2))])"
  proof
    assume "bad_request r1 \<or> api_rejection r1 msg1"
    then obtain e1 where
      e1: "attempt_reply ''without parameters'' (JObj []) r1 = Inl e1"
          "attempt_reply ''without parameters'' (JArr []) r1 = Inl e1"
      using attempt_reply_bad_request[of r1] attempt_reply_api_rejection[of r1 msg1] by auto
    show "sent (snd (get_futures_account w currency))
          = sent w @ [account_request None, account_request (Some currency)] \<and>
        sent (snd (get_positions w currency))
          = sent w @ [positions_request None, positions_request (Some currency)] \<and>
        (r2 = api_ok d \<longrightarrow>
           fst (get_futures_account w currency) = d \<and>
           logged (snd (get_futures_account w currency)) = logged w) \<and>
        (r2 = api_ok (JArr ps) \<and> open_positions ps = Inr opened \<longrightarrow>
           fst (get_positions w currency) = opened \<and>
           logged (snd (get_positions w currency)) = logged w) \<and>
        (bad_request r2 \<longrightarrow>
           fst (get_futures_account w currency) = JObj [] \<and>
           logged (snd (get_futures_account w currency))
             = logged w @ [Fetch_Failed ''ACCOUNT''
                             (Some (Err_Text (''400 Bad Request with with currency='' @ currency)))] \<and>
           fst (get_positions w currency) = [] \<and>
           logged (snd (get_positions w currency))
             = logged w @ [Fetch_Failed ''POSITIONS''
                             (Some (Err_Text (''400 Bad Request with with currency='' @ currency)))]) \<and>
        (api_rejection r2 msg2 \<longrightarrow>
           fst (get_futures_account w currency) = JObj [] \<and>
           logged (snd (get_futures_account w currency))
             = logged w @ [Fetch_Failed ''ACCOUNT'' (Some (Err_Api msg2))] \<and>
           fst (get_positions w currency) = [] \<and>
           logged (snd (get_positions w currency))
             = logged w @ [Fetch_Failed ''POSITIONS'' (Some (Err_Api msg2))])"
      by (auto simp: a p e1 attempt_reply_api_ok attempt_reply_bad_request
            attempt_reply_api_rejection split: sum.splits)
  qed
  from first_a first_p fail_a fail_p next_variant show ?thesis by blast
qed

theorem endpoint_variants_fallback_witness:
  "sent (snd (get_futures_account
                (exchange [Response 400 [] (Not_JSON []), api_error ''400100'' ''Invalid currency''])
                ''XBT''))
     = [account_request None, account_request (Some ''XBT'')] \<and>
   fst (get_futures_account
          (exchange [Response 400 [] (Not_JSON []), api_error ''400100'' ''Invalid currency''])
          ''XBT'') = JObj [] \<and>
   logged (snd (get_futures_account
                  (exchange [Response 400 [] (Not_JSON []), api_error ''400100'' ''Invalid currency''])
                  ''XBT''))
     = [Fetch_Failed ''ACCOUNT'' (Some (Err_Api (JStr ''Invalid currency'')))] \<and>
   sent (snd (get_positions
                (exchange [Response 400 [] (Not_JSON []), api_error ''400100'' ''Invalid currency''])
                ''XBT''))
     = [positions_request None, positions_request (Some ''XBT'')] \<and>
   fst (get_positions
          (exchange [Response 400 [] (Not_JSON []), api_error ''400100'' ''Invalid currency''])
          ''XBT'') = [] \<and>
   logged (snd (get_positions
                  (exchange [Response 400 [] (Not_JSON []), api_error ''400100'' ''Invalid currency''])
                  ''XBT''))
     = [Fetch_Failed ''POSITIONS'' (Some (Err_Api (JStr ''Invalid currency'')))]"
proof -
  have r: "replies (exchange [Response 400 [] (Not_JSON []),
                              api_error ''400100'' ''Invalid currency''])
             = Response 400 [] (Not_JSON []) # api_error ''400100'' ''Invalid currency'' # []"
    by (simp add: exchange_def)
  have b: "bad_request (Response 400 [] (Not_JSON [])) \<or>
           api_rejection (Response 400 [] (Not_JSON [])) JNull"
    by (simp add: bad_request_def)
  have j: "api_rejection (api_error ''400100'' ''Invalid currency'') (JStr ''Invalid currency'')"
    by (simp add: api_rejection_def api_error_def)
  have e: "sent (exchange [Response 400 [] (Not_JSON []),
                           api_error ''400100'' ''Invalid currency'']) = []"
          "logged (exchange [Response 400 [] (Not_JSON []),
                             api_error ''400100'' ''Invalid currency'']) = []"
    by (simp_all add: exchange_def)
  show ?thesis
    using endpoint_variants_fallback[OF r, of "''XBT''" JNull JNull "[]" "[]"
        "JStr ''Invalid currency''"] b j e
    by simp
qed

end
